theory Spec2Isabelle
  imports Main "HOL-Library.Multiset" "HOL-Library.Sublist" "HOL-Library.Word"
begin

section \<open>Tree query of the query backend: \<^verbatim>\<open>pkg/experiment/querybackend/query_tree.go\<close>\<close>

text \<open>
  The file under verification defines the local executor \<^verbatim>\<open>queryTree\<close>, which turns
  the sample rows of one block into a partial tree report, and the aggregator
  \<^verbatim>\<open>treeAggregator\<close>, which folds partial reports into the final one.  Both are
  translated below statement by statement.  The packages they call
  (\<^verbatim>\<open>pkg/model\<close>, \<^verbatim>\<open>pkg/phlaredb/symdb\<close>, \<^verbatim>\<open>pkg/phlaredb/query\<close>, the generated
  protobuf code and \<^verbatim>\<open>dskit/runutil\<close>) are not part of the file; each of them is
  modelled from the specification and marked as such.

  Go pointers that may be \<^verbatim>\<open>nil\<close> are \<open>option\<close> values.  A run-time panic
  (nil-pointer dereference) is the result \<open>Panicked\<close>.
\<close>

subsection \<open>Errors and results\<close>

text \<open>
  Go's \<^verbatim>\<open>error\<close> values.  \<open>Wrapf\<close> is an error wrapped with a message and \<open>Multi\<close> is the
  combination of several errors, as the deferred close helper builds them.
\<close>

datatype error =
    ErrMsg string
  | Wrapf string error
  | Multi "error list"

datatype 'a go_result = Returned 'a | Panicked

subsection \<open>Call trees (\<^verbatim>\<open>model.Tree\<close>)\<close>

text \<open>
  Modelled from the spec: \<^verbatim>\<open>model.Tree\<close>, the StackTrace Tree, is missing from the
  sources.  The specification describes it as a hierarchical, weighted structure whose
  nodes are call frames and whose weights are the sample value contributed along each
  call path.  Such a tree is determined by the weight that every call path carries, so it
  is modelled as the multiset of its call paths (root first): the multiplicity of a path
  is the value contributed along it.  The nodes of the tree are the prefixes of its call
  paths, the empty path being the root; the empty tree has no node.
\<close>

type_synonym call_path = "string list"

type_synonym Tree = "call_path multiset"

text \<open>Modelled from the spec: the nodes of a tree, one for each prefix of a call path.\<close>

definition nodes :: "Tree \<Rightarrow> call_path set" where
  "nodes t = (\<Union>p \<in> set_mset t. set (prefixes p))"

text \<open>Modelled from the spec: the number of nodes of a tree, which truncation bounds.\<close>

definition node_count :: "Tree \<Rightarrow> nat" where
  "node_count t = card (nodes t)"

text \<open>
  Modelled from the spec: merging two trees (\<^verbatim>\<open>Tree.Merge\<close>, missing) adds the weights
  path by path, which on multisets is the union \<open>+\<close>.
\<close>

definition Tree_Merge :: "Tree \<Rightarrow> Tree \<Rightarrow> Tree" where
  "Tree_Merge t u = t + u"

text \<open>
  Modelled from the spec: truncation to a maximum node count (inside \<^verbatim>\<open>Tree.Bytes\<close>,
  missing).  The specification requires that the result never has more than \<open>N\<close> nodes
  and that a count of at least the number of nodes returns the tree unmodified; it leaves
  the policy open.  The model keeps whole levels: it cuts every call path at the greatest
  depth at which the tree still has at most \<open>N\<close> nodes, so that the weight cut off below
  stays with the deepest ancestor that is kept.  With \<open>N \<le> 0\<close> no node is kept.
\<close>

definition cut_to_depth :: "nat \<Rightarrow> Tree \<Rightarrow> Tree" where
  "cut_to_depth d t = image_mset (take d) t"

text \<open>Modelled from the spec: the length of the longest call path of a tree.\<close>

definition depth :: "Tree \<Rightarrow> nat" where
  "depth t = Max (insert 0 (length ` set_mset t))"

text \<open>
  Modelled from the spec: the greatest depth, from \<open>d\<close> downwards, at which the tree has
  at most \<open>n\<close> nodes; depth zero keeps the root only.
\<close>

fun cut_depth :: "nat \<Rightarrow> Tree \<Rightarrow> nat \<Rightarrow> nat" where
  "cut_depth n t 0 = 0"
| "cut_depth n t (Suc d) =
     (if node_count (cut_to_depth (Suc d) t) \<le> n then Suc d else cut_depth n t d)"

text \<open>Modelled from the spec: the tree truncated to at most \<open>n\<close> nodes.\<close>

definition truncate_nodes :: "int \<Rightarrow> Tree \<Rightarrow> Tree" where
  "truncate_nodes n t = (if n \<le> 0 then {#} else cut_to_depth (cut_depth (nat n) t (depth t)) t)"

text \<open>
  Modelled from the spec: the serialized form of a tree (\<^verbatim>\<open>Tree.Bytes\<close> and
  \<^verbatim>\<open>UnmarshalTree\<close>, missing).  The wire format is outside the specification, which
  only asks for lossless serialization and for a decode error on a payload that cannot be
  parsed.  A payload is therefore either the encoding of a tree or bytes that do not
  decode.  \<^verbatim>\<open>maxNodes\<close> is an \<^verbatim>\<open>int64\<close>.
\<close>

datatype tree_bytes = Encoded Tree | Malformed "8 word list"

text \<open>
  Modelled from the spec: \<^verbatim>\<open>Tree.Bytes(maxNodes)\<close>, the serialization of the tree
  truncated to the maximum node count.
\<close>

definition Bytes :: "Tree \<Rightarrow> 64 word \<Rightarrow> tree_bytes" where
  "Bytes t maxNodes = Encoded (truncate_nodes (sint maxNodes) t)"

text \<open>
  Modelled from the spec: \<^verbatim>\<open>UnmarshalTree\<close>, which gives back the encoded tree or fails
  with a decode error.
\<close>

definition UnmarshalTree :: "tree_bytes \<Rightarrow> error + Tree" where
  "UnmarshalTree b =
     (case b of
        Encoded t \<Rightarrow> Inr t
      | Malformed _ \<Rightarrow> Inl (ErrMsg ''failed to decode tree''))"

subsection \<open>The tree merger (\<^verbatim>\<open>model.TreeMerger\<close>)\<close>

text \<open>
  Modelled from the spec: \<^verbatim>\<open>model.TreeMerger\<close> is missing from the sources.  The
  specification gives its interface: \<^verbatim>\<open>new()\<close>, \<^verbatim>\<open>mergeSerializedTree(bytes) -> error\<close>
  and \<^verbatim>\<open>tree() -> Tree\<close>; a failed merge leaves the accumulator of the prior successful
  merges valid.  The merger is the tree accumulated so far, empty when new.  Its methods
  are called through a pointer, which the aggregator holds and which is nil until a
  merger is created: the methods read and write the accumulator of the merger, so a call
  through the nil pointer is a nil-pointer dereference.
\<close>

type_synonym TreeMerger = Tree

text \<open>Modelled from the spec: \<^verbatim>\<open>model.NewTreeMerger()\<close>, a merger that has merged nothing.\<close>

definition NewTreeMerger :: TreeMerger where
  "NewTreeMerger = {#}"

text \<open>
  Modelled from the spec: \<^verbatim>\<open>MergeTreeBytes(b)\<close> decodes the payload and merges the tree
  into the accumulator; when the payload does not decode it returns the error and the
  accumulator stays as it was.  The result is the returned error and the merger after
  the call.
\<close>

definition MergeTreeBytes ::
  "TreeMerger option \<Rightarrow> tree_bytes \<Rightarrow> (error option \<times> TreeMerger) go_result" where
  "MergeTreeBytes mp b =
     (case mp of
        None \<Rightarrow> Panicked
      | Some m \<Rightarrow>
          (case UnmarshalTree b of
             Inl e \<Rightarrow> Returned (Some e, m)
           | Inr t \<Rightarrow> Returned (None, Tree_Merge m t)))"

text \<open>Modelled from the spec: \<^verbatim>\<open>TreeMerger.Tree()\<close>, the tree accumulated so far.\<close>

definition TreeMerger_Tree :: "TreeMerger option \<Rightarrow> Tree go_result" where
  "TreeMerger_Tree mp = (case mp of None \<Rightarrow> Panicked | Some m \<Rightarrow> Returned m)"

subsection \<open>Queries and reports (\<^verbatim>\<open>querybackendv1\<close>)\<close>

text \<open>
  Modelled from the spec: the Report/Query Model; the generated protobuf messages are
  missing from the sources.  The records have the fields that the file reads or writes:
  a tree report carries the echoed query and the serialized tree, a tree query the
  maximum node count (an \<^verbatim>\<open>int64\<close>).  A sub-message is a pointer and may be absent.
\<close>

record TreeQuery =
  MaxNodes :: "64 word"

record TreeReport =
  TreeReport_Query :: "TreeQuery option"
  TreeReport_Tree :: tree_bytes

record Report =
  Report_Tree :: "TreeReport option"

record Query =
  Query_Tree :: "TreeQuery option"

text \<open>
  Modelled from the spec: \<^verbatim>\<open>GetMaxNodes\<close>, the generated getter, which reads zero from a
  nil receiver.
\<close>

definition GetMaxNodes :: "TreeQuery option \<Rightarrow> 64 word" where
  "GetMaxNodes x = (case x of None \<Rightarrow> 0 | Some tq \<Rightarrow> MaxNodes tq)"

text \<open>
  Modelled from the spec: \<^verbatim>\<open>CloneVT\<close>, the generated deep copy (nil for a nil receiver);
  on values a copy is the value itself.
\<close>

definition CloneVT :: "TreeQuery option \<Rightarrow> TreeQuery option" where
  "CloneVT x = x"

subsection \<open>The aggregator\<close>

text \<open>
  \<^verbatim>\<open>type treeAggregator struct { init sync.Once; query *TreeQuery; tree *TreeMerger }\<close>.
  The field \<open>init\<close> is the done flag of the \<^verbatim>\<open>sync.Once\<close>.  \<^verbatim>\<open>new(treeAggregator)\<close>
  is the zero value: the once not done, both pointers nil.  The factory does not name its
  argument.
\<close>

record treeAggregator =
  init :: bool
  query :: "TreeQuery option"
  tree :: "TreeMerger option"

definition newTreeAggregator :: "'req \<Rightarrow> treeAggregator" where
  "newTreeAggregator _ = \<lparr>init = False, query = None, tree = None\<rparr>"

text \<open>
  The function literal handed to \<^verbatim>\<open>a.init.Do\<close>: it creates the merger and then reads
  \<^verbatim>\<open>r.Query\<close>, a field access through \<^verbatim>\<open>r\<close> that panics when \<^verbatim>\<open>r\<close> is nil, after the
  first assignment has taken place.
\<close>

definition init_body :: "TreeReport option \<Rightarrow> treeAggregator \<Rightarrow> unit go_result \<times> treeAggregator" where
  "init_body r a =
     (let a1 = a\<lparr>tree := Some NewTreeMerger\<rparr> in
      case r of
        None \<Rightarrow> (Panicked, a1)
      | Some tr \<Rightarrow> (Returned (), a1\<lparr>query := CloneVT (TreeReport_Query tr)\<rparr>))"

text \<open>
  \<^verbatim>\<open>sync.Once.Do\<close>: runs the function only while the once is not done, and marks it
  done also when the function panics (the panic goes on to the caller).
\<close>

definition init_Do ::
  "(treeAggregator \<Rightarrow> unit go_result \<times> treeAggregator) \<Rightarrow> treeAggregator
     \<Rightarrow> unit go_result \<times> treeAggregator" where
  "init_Do f a =
     (if init a then (Returned (), a)
      else (case f a of (res, a') \<Rightarrow> (res, a'\<lparr>init := True\<rparr>)))"

text \<open>
  \<^verbatim>\<open>func (a *treeAggregator) aggregate(report *Report) error\<close>.  The result is what
  the call returns (or that it panics) together with the aggregator as the call leaves
  it.  In the last line \<^verbatim>\<open>r.Tree\<close> is again a field access through \<^verbatim>\<open>r\<close>, and
  \<^verbatim>\<open>MergeTreeBytes\<close> updates the merger that \<^verbatim>\<open>a.tree\<close> points to.  The receiver
  and the report pointer themselves are taken to be non-nil.
\<close>

definition aggregate :: "treeAggregator \<Rightarrow> Report \<Rightarrow> error option go_result \<times> treeAggregator" where
  "aggregate a report =
     (let r = Report_Tree report in
      case init_Do (init_body r) a of
        (Panicked, a1) \<Rightarrow> (Panicked, a1)
      | (Returned _, a1) \<Rightarrow>
          (case r of
             None \<Rightarrow> (Panicked, a1)
           | Some tr \<Rightarrow>
               (case MergeTreeBytes (tree a1) (TreeReport_Tree tr) of
                  Panicked \<Rightarrow> (Panicked, a1)
                | Returned (err, m') \<Rightarrow> (Returned err, a1\<lparr>tree := Some m'\<rparr>))))"

text \<open>
  \<^verbatim>\<open>func (a *treeAggregator) build() *Report\<close>.  \<^verbatim>\<open>a.tree.Tree()\<close> is called
  through \<^verbatim>\<open>a.tree\<close> without a check, whether or not \<^verbatim>\<open>aggregate\<close> has created the
  merger.  \<^verbatim>\<open>a.query\<close> may be nil: it is stored as it is and \<^verbatim>\<open>GetMaxNodes\<close> reads
  zero from it.
\<close>

definition build :: "treeAggregator \<Rightarrow> Report go_result" where
  "build a =
     (case TreeMerger_Tree (tree a) of
        Panicked \<Rightarrow> Panicked
      | Returned t \<Rightarrow>
          Returned \<lparr>Report_Tree = Some
            \<lparr>TreeReport_Query = query a,
             TreeReport_Tree = Bytes t (GetMaxNodes (query a))\<rparr>\<rparr>)"

text \<open>
  A caller that passes reports one after the other to the same aggregator.  Whatever a
  call returns, the next call finds the aggregator as the previous one left it; this
  includes a call that panicked, for a caller that recovers.
\<close>

fun feed :: "treeAggregator \<Rightarrow> Report list \<Rightarrow> treeAggregator" where
  "feed a [] = a"
| "feed a (r # rs) = feed (snd (aggregate a r)) rs"

text \<open>
  What a report contributes, read with the nil-safe getters
  (\<^verbatim>\<open>report.GetTree().GetQuery()\<close>), and the tree that its payload adds to the
  accumulator: nothing when the report has no tree payload or the payload does not decode.
\<close>

definition report_query :: "Report \<Rightarrow> TreeQuery option" where
  "report_query report =
     (case Report_Tree report of None \<Rightarrow> None | Some tr \<Rightarrow> TreeReport_Query tr)"

definition report_tree :: "Report \<Rightarrow> Tree" where
  "report_tree report =
     (case Report_Tree report of
        None \<Rightarrow> {#}
      | Some tr \<Rightarrow> (case UnmarshalTree (TreeReport_Tree tr) of Inl _ \<Rightarrow> {#} | Inr t \<Rightarrow> t))"

definition serialized_tree :: "Report go_result \<Rightarrow> tree_bytes option" where
  "serialized_tree res =
     (case res of
        Panicked \<Rightarrow> None
      | Returned rep \<Rightarrow> map_option TreeReport_Tree (Report_Tree rep))"

subsection \<open>The symbol resolver (\<^verbatim>\<open>symdb.Resolver\<close>)\<close>

text \<open>
  Modelled from the spec: \<^verbatim>\<open>symdb.Resolver\<close> is missing from the sources.  The
  specification describes it as turning a stream of (partition, stack id, value) samples
  into a weighted call tree, with incremental ingestion and a finalization that fails
  when symbol data is missing.  The symbol dataset maps a stack id of a partition to its
  call path; the resolver collects the samples it is given; a row of the sample table
  carries a partition and two value vectors of the same row, the stack ids and the
  values, one pair per repeated sample.  Sample values are counts.
\<close>

type_synonym symbols = "((64 word \<times> nat) \<times> call_path) list"

record sample =
  partition :: "64 word"
  stack_id :: nat
  sample_value :: nat

type_synonym Resolver = "sample list"

text \<open>Modelled from the spec: \<^verbatim>\<open>symdb.NewResolver\<close>, a resolver without samples.\<close>

definition NewResolver :: Resolver where
  "NewResolver = []"

text \<open>
  Modelled from the spec: \<^verbatim>\<open>AddSamplesFromParquetRow(partition, stackIDs, values)\<close>, the
  ingestion of the (stack id, value) pairs of one row, tagged with its partition.
\<close>

definition AddSamplesFromParquetRow :: "Resolver \<Rightarrow> 64 word \<Rightarrow> nat list \<Rightarrow> nat list \<Rightarrow> Resolver" where
  "AddSamplesFromParquetRow res part ids vals =
     res @ map (\<lambda>(i, v). \<lparr>partition = part, stack_id = i, sample_value = v\<rparr>) (zip ids vals)"

text \<open>
  Modelled from the spec: \<^verbatim>\<open>Resolver.Tree()\<close>, which resolves every sample to its call
  path and adds its value there, or fails when the symbols of a sample are missing.
\<close>

fun Resolver_Tree :: "symbols \<Rightarrow> Resolver \<Rightarrow> error + Tree" where
  "Resolver_Tree syms [] = Inr {#}"
| "Resolver_Tree syms (s # ss) =
     (case map_of syms (partition s, stack_id s) of
        None \<Rightarrow> Inl (ErrMsg ''symbols not found'')
      | Some p \<Rightarrow>
          (case Resolver_Tree syms ss of
             Inl e \<Rightarrow> Inl e
           | Inr t \<Rightarrow> Inr (replicate_mset (sample_value s) p + t)))"

subsection \<open>Closing with error capture (\<^verbatim>\<open>runutil.CloseWithErrCapture\<close>)\<close>

text \<open>
  Modelled from the spec: \<^verbatim>\<open>runutil.CloseWithErrCapture(&err, closer, msg)\<close> belongs
  to a dependency.  It closes the closer and stores, through the pointer, the error that
  the variable held together with the close failure wrapped in the message; a primary
  error stays first.  The function below gives the new content of the variable from the
  old one and from what \<^verbatim>\<open>Close()\<close> returned.
\<close>

text \<open>
  Modelled from the spec: \<^verbatim>\<open>MultiError.Add\<close> of the same dependency; it skips nil and
  flattens a combined error.
\<close>

definition multierror_Add :: "error list \<Rightarrow> error option \<Rightarrow> error list" where
  "multierror_Add es e =
     (case e of
        None \<Rightarrow> es
      | Some (Multi ms) \<Rightarrow> es @ ms
      | Some x \<Rightarrow> es @ [x])"

text \<open>Modelled from the spec: \<^verbatim>\<open>MultiError.Err()\<close>, nil when nothing was added.\<close>

definition multierror_Err :: "error list \<Rightarrow> error option" where
  "multierror_Err es = (if es = [] then None else Some (Multi es))"

text \<open>
  Modelled from the spec: the new content of the error variable after
  \<^verbatim>\<open>CloseWithErrCapture\<close>.
\<close>

definition CloseWithErrCapture :: "error option \<Rightarrow> error option \<Rightarrow> string \<Rightarrow> error option" where
  "CloseWithErrCapture err closed msg =
     multierror_Err (multierror_Add (multierror_Add [] err) (map_option (Wrapf msg) closed))"

subsection \<open>The local executor\<close>

text \<open>
  Modelled from the spec: the query context and the block dataset behind it are missing
  from the sources.  The record holds the query context \<^verbatim>\<open>q\<close> of one block, as far
  as \<^verbatim>\<open>queryTree\<close> observes it:
  \<^item> \<open>q_entries\<close>: what \<^verbatim>\<open>profileEntryIterator(q)\<close> returns, an error or an iterator,
    given by what its \<^verbatim>\<open>Close()\<close> will return;
  \<^item> \<open>q_columns\<close>: what \<^verbatim>\<open>columns.Resolve\<close> returns on the schema of the block;
  \<^item> \<open>q_rows\<close>: the rows that the repeated-row iterator delivers until \<^verbatim>\<open>Next()\<close>
    is false, \<open>q_iter_err\<close> its terminal error \<^verbatim>\<open>Err()\<close> and \<open>q_profiles_close\<close>
    what its \<^verbatim>\<open>Close()\<close> returns;
  \<^item> \<open>q_symbols\<close>: the symbol dataset \<^verbatim>\<open>q.ds.Symbols()\<close>.
  The iterator is created over two columns, so a row has the two value vectors
  \<^verbatim>\<open>p.Values[0]\<close> and \<^verbatim>\<open>p.Values[1]\<close>.  A cancelled context shows as a terminal error
  of the iterator.
\<close>

record Row =
  Partition :: "64 word"
  Values0 :: "nat list"
  Values1 :: "nat list"

record queryContext =
  q_entries :: "error + error option"
  q_columns :: "error option"
  q_rows :: "Row list"
  q_iter_err :: "error option"
  q_profiles_close :: "error option"
  q_symbols :: symbols

text \<open>
  What a call leaves behind: the two values it returns, the final content of the local
  variable \<^verbatim>\<open>err\<close>, and the releases that ran, in order.  The results of \<^verbatim>\<open>queryTree\<close>
  are unnamed, so a \<^verbatim>\<open>return\<close> statement fixes the returned values before the deferred
  calls run; these write to the local variable \<^verbatim>\<open>err\<close> only.
\<close>

datatype event = CloseEntries | CloseProfiles | ResolverRelease

record outcome =
  ret_report :: "Report option"
  ret_err :: "error option"
  var_err :: "error option"
  events :: "event list"

definition return_stmt :: "Report option \<Rightarrow> error option \<Rightarrow> error option \<Rightarrow> outcome" where
  "return_stmt rep e local_err =
     \<lparr>ret_report = rep, ret_err = e, var_err = local_err, events = []\<rparr>"

definition deferred_close :: "event \<Rightarrow> error option \<Rightarrow> string \<Rightarrow> outcome \<Rightarrow> outcome" where
  "deferred_close ev closed msg out =
     out\<lparr>var_err := CloseWithErrCapture (var_err out) closed msg,
         events := events out @ [ev]\<rparr>"

definition deferred_Release :: "outcome \<Rightarrow> outcome" where
  "deferred_Release out = out\<lparr>events := events out @ [ResolverRelease]\<rparr>"

definition add_row :: "Resolver \<Rightarrow> Row \<Rightarrow> Resolver" where
  "add_row res p = AddSamplesFromParquetRow res (Partition p) (Values0 p) (Values1 p)"

text \<open>
  \<^verbatim>\<open>func queryTree(q *queryContext, query *Query) (*Report, error)\<close>.  A deferred call
  wraps the rest of the body that follows its \<^verbatim>\<open>defer\<close> statement, so the deferred
  calls run in reverse order.  The loop over \<^verbatim>\<open>profiles.Next()\<close> is the fold over the
  rows.  The pointers \<^verbatim>\<open>q\<close> and \<^verbatim>\<open>query\<close> themselves are taken to be non-nil; the
  parameter \<^verbatim>\<open>query\<close> is written \<open>qry\<close>.
\<close>

definition queryTree :: "queryContext \<Rightarrow> Query \<Rightarrow> outcome" where
  "queryTree q qry =
     (case q_entries q of
        Inl e \<Rightarrow> return_stmt None (Some e) (Some e)
      | Inr entries_close \<Rightarrow>
          deferred_close CloseEntries entries_close ''failed to close profile entry iterator''
            (case q_columns q of
               Some e \<Rightarrow> return_stmt None (Some e) (Some e)
             | None \<Rightarrow>
                 deferred_close CloseProfiles (q_profiles_close q) ''failed to close profile stream''
                   (deferred_Release
                      (let resolver = foldl add_row NewResolver (q_rows q) in
                       case q_iter_err q of
                         Some e \<Rightarrow> return_stmt None (Some e) (Some e)
                       | None \<Rightarrow>
                           (case Resolver_Tree (q_symbols q) resolver of
                              Inl e \<Rightarrow> return_stmt None (Some e) (Some e)
                            | Inr t \<Rightarrow>
                                return_stmt
                                  (Some \<lparr>Report_Tree = Some
                                     \<lparr>TreeReport_Query = CloneVT (Query_Tree qry),
                                      TreeReport_Tree = Bytes t (GetMaxNodes (Query_Tree qry))\<rparr>\<rparr>)
                                  None None)))))"

subsection \<open>Orders of reports\<close>

text \<open>
  The maximum node count that the first report of a sequence carries, if there is a
  first report.
\<close>

definition first_max_nodes :: "Report list \<Rightarrow> 64 word option" where
  "first_max_nodes rs = (case rs of [] \<Rightarrow> None | r # _ \<Rightarrow> Some (GetMaxNodes (report_query r)))"

subsection \<open>Concrete inputs\<close>

text \<open>
  The scenario of the specification: block A yields the partial tree with \<open>f1\<close> of
  weight 10 under the root, block B the one with \<open>f2\<close> of weight 5.  Here the report of
  block A asks for at most one node and the report of block B for at most ten.
\<close>

definition tree_A :: Tree where
  "tree_A = replicate_mset 10 [''f1'']"

definition tree_B :: Tree where
  "tree_B = replicate_mset 5 [''f2'']"

definition report_A :: Report where
  "report_A = \<lparr>Report_Tree = Some
     \<lparr>TreeReport_Query = Some \<lparr>MaxNodes = 1\<rparr>, TreeReport_Tree = Encoded tree_A\<rparr>\<rparr>"

definition report_B :: Report where
  "report_B = \<lparr>Report_Tree = Some
     \<lparr>TreeReport_Query = Some \<lparr>MaxNodes = 10\<rparr>, TreeReport_Tree = Encoded tree_B\<rparr>\<rparr>"

text \<open>A tree report whose payload does not decode, and a report of another kind.\<close>

definition report_malformed :: Report where
  "report_malformed = \<lparr>Report_Tree = Some
     \<lparr>TreeReport_Query = Some \<lparr>MaxNodes = 7\<rparr>, TreeReport_Tree = Malformed [255]\<rparr>\<rparr>"

definition report_other_kind :: Report where
  "report_other_kind = \<lparr>Report_Tree = None\<rparr>"

text \<open>
  A block with two rows and the symbols of their stack ids; the same block with a
  truncated row group, so that the iterator ends with an error; and the same block with
  a profile stream whose \<^verbatim>\<open>Close()\<close> fails.
\<close>

definition block_ok :: queryContext where
  "block_ok =
     \<lparr>q_entries = Inr None,
      q_columns = None,
      q_rows = [\<lparr>Partition = 1, Values0 = [1, 2], Values1 = [10, 5]\<rparr>,
                \<lparr>Partition = 1, Values0 = [1], Values1 = [3]\<rparr>],
      q_iter_err = None,
      q_profiles_close = None,
      q_symbols = [((1, 1), [''main'', ''f1'']), ((1, 2), [''main'', ''f2''])]\<rparr>"

definition block_truncated :: queryContext where
  "block_truncated = block_ok\<lparr>q_iter_err := Some (ErrMsg ''truncated row group'')\<rparr>"

definition block_close_fails :: queryContext where
  "block_close_fails = block_ok\<lparr>q_profiles_close := Some (ErrMsg ''close failed'')\<rparr>"

definition tree_query :: Query where
  "tree_query = \<lparr>Query_Tree = Some \<lparr>MaxNodes = 16\<rparr>\<rparr>"

section \<open>Properties\<close>

subsection \<open>The tree model meets the specification\<close>

text \<open>
  Truncation never returns more than \<open>N\<close> nodes, a count of at least the number of
  nodes returns the tree unmodified, merging is commutative and associative, and
  serialization is lossless.
\<close>

lemma nodes_empty: "nodes {#} = {}"
  by (simp add: nodes_def)

lemma finite_nodes: "finite (nodes t)"
  by (simp add: nodes_def)

lemma root_in_nodes: "t \<noteq> {#} \<Longrightarrow> [] \<in> nodes t"
  by (auto simp: nodes_def)

lemma nodes_cut0: "nodes (cut_to_depth 0 t) \<subseteq> {[]}"
  by (auto simp: nodes_def cut_to_depth_def)

lemma node_count_cut0: "node_count (cut_to_depth 0 t) \<le> 1"
proof -
  have "card (nodes (cut_to_depth 0 t)) \<le> card {[] :: call_path}"
    by (rule card_mono) (simp_all add: nodes_cut0)
  then show ?thesis by (simp add: node_count_def)
qed

lemma node_count_cut_depth:
  "0 < n \<Longrightarrow> node_count (cut_to_depth (cut_depth n t d) t) \<le> n"
proof (induction d)
  case 0
  then show ?case using node_count_cut0 [of t] by simp
next
  case (Suc d)
  then show ?case by simp
qed

lemma truncate_nodes_bound: "int (node_count (truncate_nodes n t)) \<le> max 0 n"
proof (cases "n \<le> 0")
  case True
  then show ?thesis by (simp add: truncate_nodes_def node_count_def nodes_empty)
next
  case False
  then have "node_count (cut_to_depth (cut_depth (nat n) t (depth t)) t) \<le> nat n"
    by (intro node_count_cut_depth) simp
  with False show ?thesis by (simp add: truncate_nodes_def)
qed

lemma length_le_depth: "p \<in># t \<Longrightarrow> length p \<le> depth t"
  by (simp add: depth_def)

lemma cut_to_depth_full: "cut_to_depth (depth t) t = t"
proof -
  have "image_mset (take (depth t)) t = image_mset id t"
    by (rule image_mset_cong) (simp add: length_le_depth)
  then show ?thesis by (simp add: cut_to_depth_def)
qed

lemma cut_depth_full: "node_count t \<le> n \<Longrightarrow> cut_depth n t (depth t) = depth t"
proof (cases "depth t")
  case 0
  then show ?thesis by simp
next
  case (Suc d)
  assume "node_count t \<le> n"
  moreover have "cut_to_depth (Suc d) t = t"
    using cut_to_depth_full [of t] Suc by simp
  ultimately show ?thesis using Suc by simp
qed

lemma truncate_nodes_full: "int (node_count t) \<le> n \<Longrightarrow> truncate_nodes n t = t"
proof (cases "n \<le> 0")
  case True
  assume "int (node_count t) \<le> n"
  with True have "card (nodes t) = 0" by (simp add: node_count_def)
  then have "nodes t = {}" using finite_nodes [of t] by simp
  then have "t = {#}" using root_in_nodes [of t] by auto
  with True show ?thesis by (simp add: truncate_nodes_def)
next
  case False
  assume "int (node_count t) \<le> n"
  with False have "node_count t \<le> nat n" by simp
  then show ?thesis using False
    by (simp add: truncate_nodes_def cut_depth_full cut_to_depth_full)
qed

lemma truncate_nodes_empty: "truncate_nodes n {#} = {#}"
  by (simp add: truncate_nodes_def cut_to_depth_def)

lemma Tree_Merge_commute: "Tree_Merge t u = Tree_Merge u t"
  by (simp add: Tree_Merge_def add.commute)

lemma Tree_Merge_assoc: "Tree_Merge (Tree_Merge t u) v = Tree_Merge t (Tree_Merge u v)"
  by (simp add: Tree_Merge_def add.assoc)

lemma Unmarshal_Bytes: "UnmarshalTree (Bytes t n) = Inr (truncate_nodes (sint n) t)"
  by (simp add: UnmarshalTree_def Bytes_def)

text \<open>
  The scenario of the specification: the trees of blocks A and B, merged in either order
  and serialized with a maximum of ten nodes, give the tree with the root, \<open>f1\<close> of
  weight 10 and \<open>f2\<close> of weight 5, three nodes in total.
\<close>

lemma scenario_A_B:
  "UnmarshalTree (Bytes (Tree_Merge tree_A tree_B) 10) = Inr (tree_A + tree_B) \<and>
   Tree_Merge tree_A tree_B = Tree_Merge tree_B tree_A \<and>
   nodes (tree_A + tree_B) = {[], [''f1''], [''f2'']} \<and>
   node_count (tree_A + tree_B) = 3 \<and>
   count (tree_A + tree_B) [''f1''] = 10 \<and>
   count (tree_A + tree_B) [''f2''] = 5"
  unfolding tree_A_def tree_B_def by code_simp

subsection \<open>The aggregator after a sequence of calls\<close>

text \<open>
  The first call marks the once done, stores the query of its report and starts the
  accumulator; every later call only adds the tree of its report to the accumulator.
\<close>

lemma aggregate_fresh:
  "\<not> init a \<Longrightarrow> snd (aggregate a r) =
     \<lparr>init = True,
      query = (case Report_Tree r of None \<Rightarrow> query a | Some tr \<Rightarrow> TreeReport_Query tr),
      tree = Some (report_tree r)\<rparr>"
  by (auto simp: aggregate_def init_Do_def init_body_def MergeTreeBytes_def NewTreeMerger_def
      Tree_Merge_def CloneVT_def report_tree_def split: option.splits sum.splits)

lemma aggregate_started:
  "init a \<Longrightarrow> tree a = Some m \<Longrightarrow> snd (aggregate a r) = a\<lparr>tree := Some (m + report_tree r)\<rparr>"
  by (auto simp: aggregate_def init_Do_def MergeTreeBytes_def Tree_Merge_def report_tree_def
      split: option.splits sum.splits)

lemma feed_started:
  "init a \<Longrightarrow> tree a = Some m \<Longrightarrow>
   feed a rs = a\<lparr>tree := Some (m + sum_list (map report_tree rs))\<rparr>"
proof (induction rs arbitrary: a m)
  case Nil
  then show ?case by simp
next
  case (Cons r rs)
  have "feed a (r # rs) = feed (a\<lparr>tree := Some (m + report_tree r)\<rparr>) rs"
    using Cons.prems by (simp add: aggregate_started)
  also have "\<dots> = a\<lparr>tree := Some (m + report_tree r + sum_list (map report_tree rs))\<rparr>"
    using Cons.prems by (subst Cons.IH [where m = "m + report_tree r"]) simp_all
  finally show ?case by (simp add: add.assoc)
qed

lemma feed_new:
  "feed (newTreeAggregator req) (r # rs) =
     \<lparr>init = True, query = report_query r, tree = Some (sum_list (map report_tree (r # rs)))\<rparr>"
proof -
  have "snd (aggregate (newTreeAggregator req) r) =
      \<lparr>init = True, query = report_query r, tree = Some (report_tree r)\<rparr>"
    by (simp add: aggregate_fresh newTreeAggregator_def report_query_def split: option.splits)
  then show ?thesis
    by (simp add: feed_started [where m = "report_tree r"])
qed

lemma sum_list_report_tree_perm:
  "mset rs = mset rs' \<Longrightarrow> sum_list (map report_tree rs) = sum_list (map report_tree rs')"
proof -
  assume "mset rs = mset rs'"
  then have "sum_mset (image_mset report_tree (mset rs)) = sum_mset (image_mset report_tree (mset rs'))"
    by simp
  then show ?thesis by (simp flip: sum_mset_sum_list)
qed

lemma build_feed_new:
  "build (feed (newTreeAggregator req) (r # rs)) =
     Returned \<lparr>Report_Tree = Some
       \<lparr>TreeReport_Query = report_query r,
        TreeReport_Tree =
          Bytes (sum_list (map report_tree (r # rs))) (GetMaxNodes (report_query r))\<rparr>\<rparr>"
  by (simp add: feed_new build_def TreeMerger_Tree_def del: feed.simps)

text \<open>
  On an aggregator that the factory returned and that has seen any sequence of reports,
  \<^verbatim>\<open>aggregate()\<close> panics exactly for a report without a tree payload: the merger
  pointer is never nil after the first call.
\<close>

lemma aggregate_panics_iff:
  "(fst (aggregate (feed (newTreeAggregator req) rs) r) = Panicked) = (Report_Tree r = None)"
proof (cases rs)
  case Nil
  then show ?thesis
    by (cases "Report_Tree r")
      (simp_all add: aggregate_def init_Do_def init_body_def newTreeAggregator_def
        MergeTreeBytes_def Let_def split: sum.splits)
next
  case (Cons r0 rs0)
  then show ?thesis
    by (cases "Report_Tree r")
      (simp_all add: feed_new aggregate_def init_Do_def MergeTreeBytes_def Let_def
        del: feed.simps split: sum.splits)
qed

lemma sum_list_empty_trees:
  "\<forall>r \<in> set rs. report_tree r = {#} \<Longrightarrow> sum_list (map report_tree rs) = {#}"
  by (induction rs) simp_all

subsection \<open>Claims about the aggregator\<close>

text \<open>
  C1 (as amended).  \<^verbatim>\<open>build()\<close> returns a report, without error or panic, exactly
  when \<^verbatim>\<open>aggregate()\<close> has been called at least once on the aggregator; when none of
  the calls merged a tree, the report carries the serialized empty tree.  With no call
  at all the merger pointer is still nil and \<^verbatim>\<open>build()\<close> panics.
\<close>

theorem build_needs_aggregate:
  "(build (feed (newTreeAggregator req) rs) = Panicked) = (rs = []) \<and>
   (rs \<noteq> [] \<and> (\<forall>r \<in> set rs. report_tree r = {#}) \<longrightarrow>
      serialized_tree (build (feed (newTreeAggregator req) rs)) = Some (Encoded {#}))"
proof (cases rs)
  case Nil
  then show ?thesis by (simp add: build_def TreeMerger_Tree_def newTreeAggregator_def)
next
  case (Cons r rs')
  have "serialized_tree (build (feed (newTreeAggregator req) (r # rs'))) = Some (Encoded {#})"
    if "\<forall>x \<in> set (r # rs'). report_tree x = {#}"
    unfolding build_feed_new using sum_list_empty_trees [OF that]
    by (simp add: serialized_tree_def Bytes_def truncate_nodes_empty)
  moreover have "build (feed (newTreeAggregator req) (r # rs')) \<noteq> Panicked"
    unfolding build_feed_new by simp
  ultimately show ?thesis using Cons by blast
qed

theorem build_needs_aggregate_witness:
  "report_tree report_malformed = {#} \<and>
   build (feed (newTreeAggregator ()) [report_malformed]) \<noteq> Panicked \<and>
   serialized_tree (build (feed (newTreeAggregator ()) [report_malformed])) = Some (Encoded {#})"
proof -
  have e: "\<forall>r \<in> set [report_malformed]. report_tree r = {#}"
    by (simp add: report_malformed_def report_tree_def UnmarshalTree_def)
  show ?thesis
    using build_needs_aggregate [of "()" "[report_malformed]"] e by simp
qed

text \<open>
  C1 as stated fails: on the aggregator that the factory returns, before any call of
  \<^verbatim>\<open>aggregate()\<close>, \<^verbatim>\<open>build()\<close> panics.
\<close>

theorem build_before_aggregate_panics:
  "build (newTreeAggregator ()) = Panicked"
  by (simp add: build_def TreeMerger_Tree_def newTreeAggregator_def)

text \<open>
  C2.  After any sequence of reports the captured query is the one of the first report
  ever passed to \<^verbatim>\<open>aggregate()\<close>, it stays so whatever reports follow, and it is the
  query that \<^verbatim>\<open>build()\<close> attaches to the final report.
\<close>

theorem captured_query_is_first:
  "query (feed (newTreeAggregator req) (r # rs)) = report_query r \<and>
   query (feed (feed (newTreeAggregator req) (r # rs)) later) = report_query r \<and>
   (\<exists>b. build (feed (newTreeAggregator req) (r # rs)) =
      Returned \<lparr>Report_Tree = Some \<lparr>TreeReport_Query = report_query r, TreeReport_Tree = b\<rparr>\<rparr>)"
proof -
  let ?a = "feed (newTreeAggregator req) (r # rs)"
  have a: "?a = \<lparr>init = True, query = report_query r,
      tree = Some (sum_list (map report_tree (r # rs)))\<rparr>"
    by (rule feed_new)
  have "feed ?a later =
      ?a\<lparr>tree := Some (sum_list (map report_tree (r # rs)) + sum_list (map report_tree later))\<rparr>"
    by (rule feed_started) (simp_all add: a del: feed.simps)
  then have "query (feed ?a later) = report_query r"
    by (simp add: a del: feed.simps)
  moreover have "query ?a = report_query r"
    by (simp add: a del: feed.simps)
  moreover have "\<exists>b. build ?a =
      Returned \<lparr>Report_Tree = Some \<lparr>TreeReport_Query = report_query r, TreeReport_Tree = b\<rparr>\<rparr>"
    by (simp add: a build_def TreeMerger_Tree_def del: feed.simps)
  ultimately show ?thesis by blast
qed

theorem captured_query_is_first_witness:
  "query (feed (newTreeAggregator ()) [report_A, report_B, report_malformed]) =
     Some \<lparr>MaxNodes = 1\<rparr>"
  using captured_query_is_first [of "()" report_A "[report_B, report_malformed]"]
  by (simp add: report_A_def report_query_def del: feed.simps)

text \<open>
  C3 (as amended).  For every list of partial tree reports and every permutation of it,
  the tree accumulated by a fresh aggregator is the same, and \<^verbatim>\<open>build()\<close> yields the
  same serialized tree whenever the two orders begin with reports that carry the same
  maximum node count (as when all reports echo one query).
\<close>

theorem permutation_same_tree:
  assumes "mset rs = mset rs'"
  shows "tree (feed (newTreeAggregator req) rs) = tree (feed (newTreeAggregator req') rs') \<and>
         (first_max_nodes rs = first_max_nodes rs' \<longrightarrow>
            serialized_tree (build (feed (newTreeAggregator req) rs)) =
            serialized_tree (build (feed (newTreeAggregator req') rs')))"
proof (cases rs)
  case Nil
  with assms have "rs' = []" by simp
  with Nil show ?thesis by (simp add: newTreeAggregator_def)
next
  case (Cons r rs0)
  with assms have "rs' \<noteq> []" by auto
  then obtain r' rs0' where rs': "rs' = r' # rs0'" by (cases rs') auto
  have sum: "sum_list (map report_tree (r # rs0)) = sum_list (map report_tree (r' # rs0'))"
    using assms Cons rs' by (intro sum_list_report_tree_perm) simp
  have "tree (feed (newTreeAggregator req) (r # rs0)) =
        tree (feed (newTreeAggregator req') (r' # rs0'))"
    unfolding feed_new using sum by simp
  moreover have "serialized_tree (build (feed (newTreeAggregator req) (r # rs0))) =
        serialized_tree (build (feed (newTreeAggregator req') (r' # rs0')))"
    if "first_max_nodes (r # rs0) = first_max_nodes (r' # rs0')"
  proof -
    from that have "GetMaxNodes (report_query r) = GetMaxNodes (report_query r')"
      by (simp add: first_max_nodes_def)
    then show ?thesis
      unfolding build_feed_new using sum by (simp add: serialized_tree_def)
  qed
  ultimately show ?thesis using Cons rs' by blast
qed

theorem permutation_same_tree_witness:
  "mset [report_A, report_B, report_A] = mset [report_A, report_A, report_B] \<and>
   first_max_nodes [report_A, report_B, report_A] = first_max_nodes [report_A, report_A, report_B] \<and>
   serialized_tree (build (feed (newTreeAggregator ()) [report_A, report_B, report_A])) =
   serialized_tree (build (feed (newTreeAggregator ()) [report_A, report_A, report_B]))"
proof -
  have m: "mset [report_A, report_B, report_A] = mset [report_A, report_A, report_B]"
    by simp
  have f: "first_max_nodes [report_A, report_B, report_A] =
      first_max_nodes [report_A, report_A, report_B]"
    by (simp add: first_max_nodes_def)
  show ?thesis
    using permutation_same_tree [OF m, of "()" "()"] m f by blast
qed

text \<open>
  C3 as stated fails: the two orders of the reports of blocks A and B give different
  serialized trees, because \<^verbatim>\<open>build()\<close> truncates to the maximum node count of the
  report that came first (one node in one order, ten in the other).
\<close>

theorem order_changes_serialized_tree:
  "serialized_tree (build (feed (newTreeAggregator ()) [report_A, report_B])) \<noteq>
   serialized_tree (build (feed (newTreeAggregator ()) [report_B, report_A]))"
  unfolding report_A_def report_B_def tree_A_def tree_B_def by code_simp

text \<open>
  C8 (as amended).  For a report with a tree payload that does not decode,
  \<^verbatim>\<open>aggregate()\<close> returns the decode error.  On an aggregator that has seen a report
  before, the call changes nothing: accumulated tree and captured query stay as they
  were.  On a fresh aggregator the call is the first one: it captures the query of the
  report and leaves the empty accumulator.
\<close>

theorem failed_decode_keeps_state:
  assumes "Report_Tree report = Some tr"
    and "UnmarshalTree (TreeReport_Tree tr) = Inl e"
  shows "fst (aggregate (feed (newTreeAggregator req) rs) report) = Returned (Some e) \<and>
         (rs \<noteq> [] \<longrightarrow>
            snd (aggregate (feed (newTreeAggregator req) rs) report) =
              feed (newTreeAggregator req) rs) \<and>
         (rs = [] \<longrightarrow>
            snd (aggregate (feed (newTreeAggregator req) rs) report) =
              \<lparr>init = True, query = TreeReport_Query tr, tree = Some {#}\<rparr>)"
proof (cases rs)
  case Nil
  then show ?thesis using assms
    by (simp add: aggregate_def init_Do_def init_body_def newTreeAggregator_def
        MergeTreeBytes_def NewTreeMerger_def CloneVT_def)
next
  case (Cons r rs0)
  then show ?thesis using assms
    by (simp add: feed_new aggregate_def init_Do_def MergeTreeBytes_def del: feed.simps)
qed

theorem failed_decode_keeps_state_witness:
  "fst (aggregate (feed (newTreeAggregator ()) [report_A, report_B]) report_malformed) =
     Returned (Some (ErrMsg ''failed to decode tree'')) \<and>
   snd (aggregate (feed (newTreeAggregator ()) [report_A, report_B]) report_malformed) =
     feed (newTreeAggregator ()) [report_A, report_B]"
  using failed_decode_keeps_state [of report_malformed
      "\<lparr>TreeReport_Query = Some \<lparr>MaxNodes = 7\<rparr>, TreeReport_Tree = Malformed [255]\<rparr>"
      "ErrMsg ''failed to decode tree''" "()" "[report_A, report_B]"]
  by (simp add: report_malformed_def UnmarshalTree_def del: feed.simps)

text \<open>
  C8 as stated fails: for a report of another kind, which has no tree payload,
  \<^verbatim>\<open>aggregate()\<close> panics instead of returning an error, on a fresh aggregator and on
  one that has merged a report.
\<close>

theorem other_kind_panics:
  "fst (aggregate (newTreeAggregator ()) report_other_kind) = Panicked \<and>
   fst (aggregate (feed (newTreeAggregator ()) [report_A]) report_other_kind) = Panicked"
  unfolding report_A_def report_other_kind_def tree_A_def by code_simp

text \<open>
  C10.  The factory ignores its argument: for any two invocation requests it returns the
  same aggregator, so every call of \<^verbatim>\<open>aggregate()\<close> and the report of \<^verbatim>\<open>build()\<close>
  depend on the reports only.
\<close>

theorem factory_ignores_request:
  "newTreeAggregator req = newTreeAggregator req' \<and>
   aggregate (newTreeAggregator req) r = aggregate (newTreeAggregator req') r \<and>
   build (feed (newTreeAggregator req) rs) = build (feed (newTreeAggregator req') rs)"
  by (simp add: newTreeAggregator_def)

theorem factory_ignores_request_witness:
  "newTreeAggregator (1 :: nat) = newTreeAggregator ''tenant'' \<and>
   build (feed (newTreeAggregator (1 :: nat)) [report_A, report_B]) =
   build (feed (newTreeAggregator ''tenant'') [report_A, report_B])"
  using factory_ignores_request [of "1 :: nat" "''tenant''" report_A "[report_A, report_B]"]
  by blast

subsection \<open>Claims about the local executor\<close>

lemmas queryTree_defs = queryTree_def deferred_close_def deferred_Release_def return_stmt_def

text \<open>
  What \<^verbatim>\<open>queryTree\<close> returns does not depend on what closing the profile stream or
  the entry iterator returns: a primary error is never replaced, and a close failure
  never reaches the returned error.
\<close>

lemma returned_values_ignore_close:
  "ret_err (queryTree (q\<lparr>q_profiles_close := c\<rparr>) qry) = ret_err (queryTree q qry) \<and>
   ret_report (queryTree (q\<lparr>q_profiles_close := c\<rparr>) qry) = ret_report (queryTree q qry) \<and>
   ret_err (queryTree (q\<lparr>q_entries := map_sum id (\<lambda>_. c') (q_entries q)\<rparr>) qry) =
     ret_err (queryTree q qry) \<and>
   ret_report (queryTree (q\<lparr>q_entries := map_sum id (\<lambda>_. c') (q_entries q)\<rparr>) qry) =
     ret_report (queryTree q qry)"
  by (simp add: queryTree_defs split: option.split sum.split)

text \<open>
  C4.  When the row iterator ends with a terminal error, \<^verbatim>\<open>queryTree\<close> returns that
  error unchanged and a nil report, whatever the deferred closes return.
\<close>

theorem terminal_error_returned:
  assumes "q_entries q = Inr c" and "q_columns q = None" and "q_iter_err q = Some e"
  shows "ret_report (queryTree q qry) = None \<and> ret_err (queryTree q qry) = Some e"
  using assms by (simp add: queryTree_defs)

theorem terminal_error_returned_witness:
  "ret_report (queryTree block_truncated tree_query) = None \<and>
   ret_err (queryTree block_truncated tree_query) = Some (ErrMsg ''truncated row group'')"
  using terminal_error_returned [of block_truncated None "ErrMsg ''truncated row group''" tree_query]
  by (simp add: block_truncated_def block_ok_def)

text \<open>
  C5.  On every path through \<^verbatim>\<open>queryTree\<close> on which the resolver is created (the
  entry iterator opened and the columns resolved), whether the call succeeds or fails
  with an iterator or a resolution error, the resolver is released exactly once, before
  the two iterators are closed and the function returns.
\<close>

theorem resolver_released_once:
  assumes "q_entries q = Inr c" and "q_columns q = None"
  shows "events (queryTree q qry) = [ResolverRelease, CloseProfiles, CloseEntries] \<and>
         count_list (events (queryTree q qry)) ResolverRelease = 1"
  using assms by (simp add: queryTree_defs split: option.split sum.split)

theorem resolver_released_once_witness:
  "count_list (events (queryTree block_truncated tree_query)) ResolverRelease = 1 \<and>
   ret_err (queryTree block_truncated tree_query) \<noteq> None"
  using resolver_released_once [of block_truncated None tree_query]
  by (simp add: block_truncated_def block_ok_def queryTree_defs)

text \<open>
  C6.  When \<^verbatim>\<open>queryTree\<close> succeeds (returns a nil error), the report it returns
  consists of the tree parameters of the query and of the tree that the resolver built
  from the rows, serialized with truncation to the maximum node count of the query: the
  serialized tree has at most that many nodes.
\<close>

theorem success_report:
  assumes "ret_err (queryTree q qry) = None"
  shows "\<exists>t. Resolver_Tree (q_symbols q) (foldl add_row NewResolver (q_rows q)) = Inr t \<and>
           ret_report (queryTree q qry) = Some \<lparr>Report_Tree = Some
             \<lparr>TreeReport_Query = Query_Tree qry,
              TreeReport_Tree = Bytes t (GetMaxNodes (Query_Tree qry))\<rparr>\<rparr> \<and>
           Bytes t (GetMaxNodes (Query_Tree qry)) =
             Encoded (truncate_nodes (sint (GetMaxNodes (Query_Tree qry))) t) \<and>
           int (node_count (truncate_nodes (sint (GetMaxNodes (Query_Tree qry))) t))
             \<le> max 0 (sint (GetMaxNodes (Query_Tree qry)))"
  using assms truncate_nodes_bound
  by (auto simp: queryTree_defs CloneVT_def Bytes_def split: option.splits sum.splits)

theorem success_report_witness:
  "ret_err (queryTree block_ok tree_query) = None \<and>
   ret_report (queryTree block_ok tree_query) = Some \<lparr>Report_Tree = Some
     \<lparr>TreeReport_Query = Some \<lparr>MaxNodes = 16\<rparr>,
      TreeReport_Tree =
        Bytes (replicate_mset 13 [''main'', ''f1''] + replicate_mset 5 [''main'', ''f2'']) 16\<rparr>\<rparr>"
proof -
  have h: "ret_err (queryTree block_ok tree_query) = None"
    unfolding block_ok_def tree_query_def by code_simp
  have t: "Resolver_Tree (q_symbols block_ok) (foldl add_row NewResolver (q_rows block_ok)) =
      Inr (replicate_mset 13 [''main'', ''f1''] + replicate_mset 5 [''main'', ''f2''])"
    unfolding block_ok_def by code_simp
  show ?thesis
    using success_report [OF h] h t by (auto simp: tree_query_def GetMaxNodes_def)
qed

text \<open>
  C7 fails on the code.  On a block whose profile stream fails to close while everything
  else succeeds, \<^verbatim>\<open>queryTree\<close> returns the same report as without the failure and a
  nil error: the close failure reaches the local variable \<^verbatim>\<open>err\<close> only, after the
  returned values were fixed.
\<close>

theorem close_failure_dropped:
  "ret_err (queryTree block_close_fails tree_query) = None \<and>
   ret_report (queryTree block_close_fails tree_query) =
     ret_report (queryTree block_ok tree_query) \<and>
   var_err (queryTree block_close_fails tree_query) =
     Some (Multi [Wrapf ''failed to close profile stream'' (ErrMsg ''close failed'')]) \<and>
   events (queryTree block_close_fails tree_query) =
     [ResolverRelease, CloseProfiles, CloseEntries]"
  unfolding block_close_fails_def block_ok_def tree_query_def by code_simp

end
